theory Spec2Isabelle
  imports Complex_Main "HOL-Library.Word" "HOL-Library.Signed_Division"
begin

section \<open>Data model\<close>

text \<open>
  Identifiers are \<open>uuid.UUID\<close> values; the model holds them in their canonical text form,
  which is also what the cache keys are built from. Amounts are \<open>float64\<close> in the
  services and \<open>decimal(15,2)\<close> in the store; the model takes them as exact rationals, so
  binary rounding is outside of it. Time stamps are nanoseconds since the epoch.
\<close>

type_synonym uuid = string
type_synonym amount = rat
type_synonym time = int

text \<open>\<open>models.TransactionType\<close> and \<open>models.TransactionStatus\<close> are string types.\<close>

type_synonym TransactionType = string
type_synonym TransactionStatus = string

definition TransactionTypeTransfer :: TransactionType where
  "TransactionTypeTransfer = ''transfer''"
definition TransactionTypeDeposit :: TransactionType where
  "TransactionTypeDeposit = ''deposit''"
definition TransactionTypeWithdraw :: TransactionType where
  "TransactionTypeWithdraw = ''withdraw''"
definition TransactionTypePayment :: TransactionType where
  "TransactionTypePayment = ''payment''"
definition TransactionTypeRefund :: TransactionType where
  "TransactionTypeRefund = ''refund''"

definition TransactionStatusPending :: TransactionStatus where
  "TransactionStatusPending = ''pending''"
definition TransactionStatusCompleted :: TransactionStatus where
  "TransactionStatusCompleted = ''completed''"
definition TransactionStatusFailed :: TransactionStatus where
  "TransactionStatusFailed = ''failed''"
definition TransactionStatusCancelled :: TransactionStatus where
  "TransactionStatusCancelled = ''cancelled''"
definition TransactionStatusRefund :: TransactionStatus where
  "TransactionStatusRefund = ''refund''"

text \<open>\<open>models.Transaction\<close>; the two pointer fields are options, \<open>nil\<close> being \<open>None\<close>.\<close>

record Transaction =
  ID :: uuid
  FromUserID :: "uuid option"
  ToUserID :: "uuid option"
  Amount :: amount
  Type :: TransactionType
  Status :: TransactionStatus
  Reference :: string
  CreatedAt :: time

text \<open>\<open>models.BalanceHistory\<close>.\<close>

record BalanceHistory =
  bh_ID :: uuid
  bh_UserID :: uuid
  bh_PreviousAmount :: amount
  bh_NewAmount :: amount
  bh_ChangeAmount :: amount
  bh_ChangeType :: string
  bh_CreatedAt :: time

text \<open>
  \<open>models.AuditLog\<close>. The free-text \<open>Details\<close> and the always empty \<open>IPAddress\<close> and
  \<open>UserAgent\<close> fields decide nothing and are left out.
\<close>

record AuditLog =
  al_ID :: uuid
  al_UserID :: "uuid option"
  al_Action :: string
  al_EntityType :: string
  al_EntityID :: string
  al_CreatedAt :: time

text \<open>
  The durable store: the \<open>balances\<close> table keyed by \<open>user_id\<close>, and the
  \<open>transactions\<close>, \<open>balance_history\<close> and \<open>audit_logs\<close> tables in insertion order.
\<close>

record store =
  balances :: "uuid \<rightharpoonup> amount"
  transactions :: "Transaction list"
  balance_history :: "BalanceHistory list"
  audit_logs :: "AuditLog list"

section \<open>The Redis cache service\<close>

text \<open>
  A value of Go's \<open>interface{}\<close>, as far as the cache traffic needs it: \<open>nil\<close>, a
  \<open>string\<close> or a \<open>float64\<close>.
\<close>

datatype go_value = GoNil | GoString string | GoFloat64 amount

text \<open>
  \<open>RedisCacheService\<close>: the key space behind the client and the \<open>CacheStats\<close> counters.
  An entry whose TTL has run out is an absent key.
\<close>

record RedisCacheService =
  kv :: "string \<rightharpoonup> string"
  Hits :: "64 word"
  Misses :: "64 word"
  Sets :: "64 word"
  Deletes :: "64 word"
  Errors :: "64 word"

text \<open>The whole state the services work on: the store and the cache (\<open>None\<close>: no cache).\<close>

record world =
  db :: store
  cache :: "RedisCacheService option"

section \<open>Calls that can fail\<close>

text \<open>
  Every call into the store or into Redis returns an error in the source. Which of them
  fail in a run is an input of the model: \<open>fails e c\<close> says that call \<open>c\<close> fails.
  The identifiers handed out by \<open>uuid.New()\<close> and the readings of \<open>time.Now()\<close> are
  inputs as well, and so is whether the service holds an audit service.
\<close>

datatype call =
    BeginTx | CommitTx
  | CreateTransaction | ReadBalance | ReadFromBalance | ReadToBalance
  | UpdateBalanceRow | SubtractSender | AddReceiver | UpdateStatus
  | CreateAuditLog | QueryAuditLogs
  | RepoGetBalance | RepoUpdateBalance | RepoSaveHistory
  | RedisGet | RedisSet | RedisDel

record env =
  fails :: "call \<Rightarrow> bool"
  new_tx_id :: uuid
  new_audit_id :: uuid
  now_tx :: time
  now_audit :: time
  has_audit :: bool

datatype error =
    NotPositive
  | SameAccount
  | InsufficientBalance amount amount
  | RecordNotFound call
  | DuplicateKey
  | StoreError call
  | CacheError call

section \<open>Store operations inside a transaction\<close>

text \<open>\<open>tx.Create(transaction)\<close>: the primary key must be new.\<close>

definition tx_Create :: "env \<Rightarrow> Transaction \<Rightarrow> store \<Rightarrow> error + store" where
  "tx_Create e t s =
     (if fails e CreateTransaction then Inl (StoreError CreateTransaction)
      else if ID t \<in> set (map ID (transactions s)) then Inl DuplicateKey
      else Inr (s\<lparr>transactions := transactions s @ [t]\<rparr>))"

text \<open>\<open>tx.Where("user_id = ?", u).First(&balance)\<close>: fails when no row matches.\<close>

definition tx_First :: "env \<Rightarrow> call \<Rightarrow> uuid \<Rightarrow> store \<Rightarrow> error + amount" where
  "tx_First e c u s =
     (if fails e c then Inl (StoreError c)
      else case balances s u of None \<Rightarrow> Inl (RecordNotFound c) | Some b \<Rightarrow> Inr b)"

text \<open>
  \<open>tx.Model(&Balance{}).Where("user_id = ?", u).Update("amount", f amount)\<close>: every
  matching row gets its amount rewritten; no matching row is not an error.
\<close>

definition tx_Update_amount ::
  "env \<Rightarrow> call \<Rightarrow> uuid \<Rightarrow> (amount \<Rightarrow> amount) \<Rightarrow> store \<Rightarrow> error + store" where
  "tx_Update_amount e c u f s =
     (if fails e c then Inl (StoreError c)
      else case balances s u of
             None \<Rightarrow> Inr s
           | Some b \<Rightarrow> Inr (s\<lparr>balances := (balances s)(u \<mapsto> f b)\<rparr>))"

text \<open>\<open>tx.Model(&Transaction{}).Where("id = ?", i).Update("status", st)\<close>.\<close>

definition tx_Update_status :: "env \<Rightarrow> uuid \<Rightarrow> TransactionStatus \<Rightarrow> store \<Rightarrow> error + store" where
  "tx_Update_status e i st s =
     (if fails e UpdateStatus then Inl (StoreError UpdateStatus)
      else Inr (s\<lparr>transactions :=
                  map (\<lambda>t. if ID t = i then t\<lparr>Status := st\<rparr> else t) (transactions s)\<rparr>))"

text \<open>
  \<open>db.Transaction(fn)\<close>: begin, run the body, roll back when it returns an error, commit
  otherwise; a failed begin or commit leaves the store as it was.
\<close>

definition db_Transaction ::
  "env \<Rightarrow> (store \<Rightarrow> error + store) \<Rightarrow> store \<Rightarrow> error option \<times> store" where
  "db_Transaction e body s =
     (if fails e BeginTx then (Some (StoreError BeginTx), s)
      else case body s of
             Inl err \<Rightarrow> (Some err, s)
           | Inr s' \<Rightarrow> if fails e CommitTx then (Some (StoreError CommitTx), s)
                       else (None, s'))"

section \<open>The audit service\<close>

definition uuid_Nil :: uuid where
  "uuid_Nil = ''00000000-0000-0000-0000-000000000000''"

text \<open>
  \<open>LogTransactionActivity\<close> writes one audit row outside any transaction; the user is the
  sender when there is one, the receiver otherwise.
\<close>

definition LogTransactionActivity ::
  "env \<Rightarrow> Transaction \<Rightarrow> string \<Rightarrow> store \<Rightarrow> error option \<times> store" where
  "LogTransactionActivity e t action s =
     (let userID = (case FromUserID t of
                      Some u \<Rightarrow> u
                    | None \<Rightarrow> (case ToUserID t of Some u \<Rightarrow> u | None \<Rightarrow> uuid_Nil));
          auditLog = \<lparr>al_ID = new_audit_id e, al_UserID = Some userID, al_Action = action,
                      al_EntityType = ''transaction'', al_EntityID = ID t,
                      al_CreatedAt = now_audit e\<rparr>
      in if fails e CreateAuditLog then (Some (StoreError CreateAuditLog), s)
         else (None, s\<lparr>audit_logs := audit_logs s @ [auditLog]\<rparr>))"

text \<open>The callers drop the returned error, and skip the call when the service is \<open>nil\<close>.\<close>

definition audit_tx :: "env \<Rightarrow> Transaction \<Rightarrow> string \<Rightarrow> store \<Rightarrow> store" where
  "audit_tx e t action s =
     (if has_audit e then snd (LogTransactionActivity e t action s) else s)"

section \<open>The transaction service\<close>

definition Credit_body :: "env \<Rightarrow> Transaction \<Rightarrow> uuid \<Rightarrow> amount \<Rightarrow> store \<Rightarrow> error + store" where
  "Credit_body e t accountID amt s =
     (case tx_Create e t s of
        Inl err \<Rightarrow> Inl err
      | Inr s1 \<Rightarrow>
          (case tx_First e ReadBalance accountID s1 of
             Inl err \<Rightarrow> Inl err
           | Inr bal \<Rightarrow>
               (let newBalance = bal + amt in
                case tx_Update_amount e UpdateBalanceRow accountID (\<lambda>_. newBalance) s1 of
                  Inl err \<Rightarrow> Inl err
                | Inr s2 \<Rightarrow> tx_Update_status e (ID t) TransactionStatusCompleted s2)))"

definition Credit :: "env \<Rightarrow> uuid \<Rightarrow> amount \<Rightarrow> world \<Rightarrow> error option \<times> world" where
  "Credit e accountID amt w =
     (if amt \<le> 0 then (Some NotPositive, w)
      else
        let t = \<lparr>ID = new_tx_id e, FromUserID = None, ToUserID = Some accountID,
                 Amount = amt, Type = TransactionTypeDeposit,
                 Status = TransactionStatusPending, Reference = ''Credit transaction'',
                 CreatedAt = now_tx e\<rparr>
        in case db_Transaction e (Credit_body e t accountID amt) (db w) of
             (Some err, s) \<Rightarrow>
               (Some err,
                w\<lparr>db := audit_tx e (t\<lparr>Status := TransactionStatusFailed\<rparr>) ''CREDIT_FAILED'' s\<rparr>)
           | (None, s) \<Rightarrow> (None, w\<lparr>db := audit_tx e t ''CREDIT_COMPLETED'' s\<rparr>))"

definition Debit_body :: "env \<Rightarrow> Transaction \<Rightarrow> uuid \<Rightarrow> amount \<Rightarrow> store \<Rightarrow> error + store" where
  "Debit_body e t accountID amt s =
     (case tx_Create e t s of
        Inl err \<Rightarrow> Inl err
      | Inr s1 \<Rightarrow>
          (case tx_First e ReadBalance accountID s1 of
             Inl err \<Rightarrow> Inl err
           | Inr bal \<Rightarrow>
               if bal < amt then Inl (InsufficientBalance bal amt)
               else
                 (let newBalance = bal - amt in
                  case tx_Update_amount e UpdateBalanceRow accountID (\<lambda>_. newBalance) s1 of
                    Inl err \<Rightarrow> Inl err
                  | Inr s2 \<Rightarrow> tx_Update_status e (ID t) TransactionStatusCompleted s2)))"

definition Debit :: "env \<Rightarrow> uuid \<Rightarrow> amount \<Rightarrow> world \<Rightarrow> error option \<times> world" where
  "Debit e accountID amt w =
     (if amt \<le> 0 then (Some NotPositive, w)
      else
        let t = \<lparr>ID = new_tx_id e, FromUserID = Some accountID, ToUserID = None,
                 Amount = amt, Type = TransactionTypeWithdraw,
                 Status = TransactionStatusPending, Reference = ''Debit transaction'',
                 CreatedAt = now_tx e\<rparr>
        in case db_Transaction e (Debit_body e t accountID amt) (db w) of
             (Some err, s) \<Rightarrow>
               (Some err,
                w\<lparr>db := audit_tx e (t\<lparr>Status := TransactionStatusFailed\<rparr>) ''DEBIT_FAILED'' s\<rparr>)
           | (None, s) \<Rightarrow> (None, w\<lparr>db := audit_tx e t ''DEBIT_COMPLETED'' s\<rparr>))"

definition Transfer_body ::
  "env \<Rightarrow> Transaction \<Rightarrow> uuid \<Rightarrow> uuid \<Rightarrow> amount \<Rightarrow> store \<Rightarrow> error + store" where
  "Transfer_body e t fromAccountID toAccountID amt s =
     (case tx_Create e t s of
        Inl err \<Rightarrow> Inl err
      | Inr s1 \<Rightarrow>
          (case tx_First e ReadFromBalance fromAccountID s1 of
             Inl err \<Rightarrow> Inl err
           | Inr fromBalance \<Rightarrow>
               if fromBalance < amt then Inl (InsufficientBalance fromBalance amt)
               else
                 (case tx_First e ReadToBalance toAccountID s1 of
                    Inl err \<Rightarrow> Inl err
                  | Inr toBalance \<Rightarrow>
                      (case tx_Update_amount e SubtractSender fromAccountID (\<lambda>a. a - amt) s1 of
                         Inl err \<Rightarrow> Inl err
                       | Inr s2 \<Rightarrow>
                           (case tx_Update_amount e AddReceiver toAccountID (\<lambda>a. a + amt) s2 of
                              Inl err \<Rightarrow> Inl err
                            | Inr s3 \<Rightarrow>
                                tx_Update_status e (ID t) TransactionStatusCompleted s3)))))"

definition Transfer :: "env \<Rightarrow> uuid \<Rightarrow> uuid \<Rightarrow> amount \<Rightarrow> world \<Rightarrow> error option \<times> world" where
  "Transfer e fromAccountID toAccountID amt w =
     (if fromAccountID = toAccountID then (Some SameAccount, w)
      else if amt \<le> 0 then (Some NotPositive, w)
      else
        let t = \<lparr>ID = new_tx_id e, FromUserID = Some fromAccountID,
                 ToUserID = Some toAccountID, Amount = amt, Type = TransactionTypeTransfer,
                 Status = TransactionStatusPending, Reference = ''Transfer transaction'',
                 CreatedAt = now_tx e\<rparr>
        in case db_Transaction e (Transfer_body e t fromAccountID toAccountID amt) (db w) of
             (Some err, s) \<Rightarrow>
               (Some err,
                w\<lparr>db := audit_tx e (t\<lparr>Status := TransactionStatusFailed\<rparr>) ''TRANSFER_FAILED'' s\<rparr>)
           | (None, s) \<Rightarrow> (None, w\<lparr>db := audit_tx e t ''TRANSFER_COMPLETED'' s\<rparr>))"

section \<open>Validation of a ledger row\<close>

datatype validation_error =
    AmountNotPositive | AmountTooHigh | InvalidType | InvalidStatus
  | TransferNeedsBothUsers | TransferToSelf
  | DepositNeedsReceiver | DepositHasSender
  | WithdrawNeedsSender | WithdrawHasReceiver

text \<open>\<open>Transaction.Validate\<close>; \<open>None\<close> is the \<open>nil\<close> error.\<close>

definition Validate :: "Transaction \<Rightarrow> validation_error option" where
  "Validate t =
     (if Amount t \<le> 0 then Some AmountNotPositive
      else if Amount t > 1000000 then Some AmountTooHigh
      else if Type t \<notin> {TransactionTypeTransfer, TransactionTypeDeposit,
                          TransactionTypeWithdraw, TransactionTypePayment,
                          TransactionTypeRefund}
           then Some InvalidType
      else if Status t \<notin> {TransactionStatusPending, TransactionStatusCompleted,
                            TransactionStatusFailed, TransactionStatusCancelled}
           then Some InvalidStatus
      else if Type t = TransactionTypeTransfer \<and> (FromUserID t = None \<or> ToUserID t = None)
           then Some TransferNeedsBothUsers
      else if Type t = TransactionTypeTransfer \<and> FromUserID t = ToUserID t
           then Some TransferToSelf
      else if Type t = TransactionTypeDeposit \<and> ToUserID t = None
           then Some DepositNeedsReceiver
      else if Type t = TransactionTypeDeposit \<and> FromUserID t \<noteq> None
           then Some DepositHasSender
      else if Type t = TransactionTypeWithdraw \<and> FromUserID t = None
           then Some WithdrawNeedsSender
      else if Type t = TransactionTypeWithdraw \<and> ToUserID t \<noteq> None
           then Some WithdrawHasReceiver
      else None)"

section \<open>Redis cache operations\<close>

text \<open>
  \<open>RedisCacheService.Get\<close>: the client hands back the stored text, so a hit is always a
  \<open>string\<close>; a missing key is \<open>nil\<close> with no error.
\<close>

definition RedisCacheService_Get ::
  "env \<Rightarrow> string \<Rightarrow> RedisCacheService \<Rightarrow> go_value \<times> error option \<times> RedisCacheService" where
  "RedisCacheService_Get e key r =
     (if fails e RedisGet then (GoNil, Some (CacheError RedisGet), r\<lparr>Errors := Errors r + 1\<rparr>)
      else case kv r key of
             None \<Rightarrow> (GoNil, None, r\<lparr>Misses := Misses r + 1\<rparr>)
           | Some result \<Rightarrow> (GoString result, None, r\<lparr>Hits := Hits r + 1\<rparr>))"

text \<open>
  \<open>RedisCacheService.Set\<close>: a string is stored as it is, anything else as its JSON text.
  The JSON rendering of a number is \<open>encoding/json\<close>'s; the model takes it as the
  parameter \<open>json\<close>.
\<close>

definition RedisCacheService_Set ::
  "env \<Rightarrow> (amount \<Rightarrow> string) \<Rightarrow> string \<Rightarrow> go_value \<Rightarrow> RedisCacheService
     \<Rightarrow> error option \<times> RedisCacheService" where
  "RedisCacheService_Set e json key v r =
     (let stringValue = (case v of
                           GoString s \<Rightarrow> s
                         | GoFloat64 x \<Rightarrow> json x
                         | GoNil \<Rightarrow> ''null'')
      in if fails e RedisSet then (Some (CacheError RedisSet), r\<lparr>Errors := Errors r + 1\<rparr>)
         else (None, r\<lparr>kv := (kv r)(key \<mapsto> stringValue), Sets := Sets r + 1\<rparr>))"

definition RedisCacheService_Delete ::
  "env \<Rightarrow> string \<Rightarrow> RedisCacheService \<Rightarrow> error option \<times> RedisCacheService" where
  "RedisCacheService_Delete e key r =
     (if fails e RedisDel then (Some (CacheError RedisDel), r\<lparr>Errors := Errors r + 1\<rparr>)
      else (None, r\<lparr>kv := (kv r)(key := None), Deletes := Deletes r + 1\<rparr>))"

section \<open>The balance repository and the balance service\<close>

text \<open>
  \<open>interfaces.BalanceRepository\<close>, as far as the balance service calls it. The service
  holds it as an interface value, so the model takes it as a record of functions.
\<close>

record BalanceRepository =
  repo_GetBalance :: "env \<Rightarrow> uuid \<Rightarrow> store \<Rightarrow> (error + amount) \<times> store"
  repo_UpdateBalance :: "env \<Rightarrow> uuid \<Rightarrow> amount \<Rightarrow> store \<Rightarrow> error option \<times> store"
  repo_SaveBalanceHistory ::
    "env \<Rightarrow> uuid \<Rightarrow> amount \<Rightarrow> time \<Rightarrow> store \<Rightarrow> error option \<times> store"

text \<open>
  The GORM repository: \<open>GetBalance\<close> creates a zero row for an account that has none,
  \<open>UpdateBalance\<close> rewrites the amount of the matching row, \<open>SaveBalanceHistory\<close>
  appends a row that carries the new amount only.
\<close>

definition gorm_GetBalance :: "env \<Rightarrow> uuid \<Rightarrow> store \<Rightarrow> (error + amount) \<times> store" where
  "gorm_GetBalance e accountID s =
     (if fails e RepoGetBalance then (Inl (StoreError RepoGetBalance), s)
      else case balances s accountID of
             Some b \<Rightarrow> (Inr b, s)
           | None \<Rightarrow> (Inr 0, s\<lparr>balances := (balances s)(accountID \<mapsto> 0)\<rparr>))"

definition gorm_UpdateBalance :: "env \<Rightarrow> uuid \<Rightarrow> amount \<Rightarrow> store \<Rightarrow> error option \<times> store" where
  "gorm_UpdateBalance e accountID amt s =
     (if fails e RepoUpdateBalance then (Some (StoreError RepoUpdateBalance), s)
      else case balances s accountID of
             None \<Rightarrow> (None, s)
           | Some _ \<Rightarrow> (None, s\<lparr>balances := (balances s)(accountID \<mapsto> amt)\<rparr>))"

definition gorm_SaveBalanceHistory ::
  "env \<Rightarrow> uuid \<Rightarrow> amount \<Rightarrow> time \<Rightarrow> store \<Rightarrow> error option \<times> store" where
  "gorm_SaveBalanceHistory e accountID amt timestamp s =
     (if fails e RepoSaveHistory then (Some (StoreError RepoSaveHistory), s)
      else (None, s\<lparr>balance_history := balance_history s @
                       [\<lparr>bh_ID = uuid_Nil, bh_UserID = accountID, bh_PreviousAmount = 0,
                         bh_NewAmount = amt, bh_ChangeAmount = 0,
                         bh_ChangeType = ''BALANCE_UPDATE'', bh_CreatedAt = timestamp\<rparr>]\<rparr>))"

definition gorm_repo :: BalanceRepository where
  "gorm_repo = \<lparr>repo_GetBalance = gorm_GetBalance, repo_UpdateBalance = gorm_UpdateBalance,
                repo_SaveBalanceHistory = gorm_SaveBalanceHistory\<rparr>"

definition balance_key :: "uuid \<Rightarrow> string" where
  "balance_key accountID = ''balance:'' @ accountID"

text \<open>
  \<open>BalanceService.GetBalance\<close>. The hit branch needs the cached value to be a \<open>float64\<close>;
  everything else falls through to the repository, whose answer is then stored in the
  cache (the error of that store is dropped).
\<close>

definition GetBalance ::
  "env \<Rightarrow> (amount \<Rightarrow> string) \<Rightarrow> BalanceRepository \<Rightarrow> uuid \<Rightarrow> world
     \<Rightarrow> (error + amount) \<times> world" where
  "GetBalance e json repo accountID w =
     (let (hit, w1) =
            (case cache w of
               None \<Rightarrow> (None, w)
             | Some r \<Rightarrow>
                 (case RedisCacheService_Get e (balance_key accountID) r of
                    (cachedBalance, err, r') \<Rightarrow>
                      (if err = None
                       then (case cachedBalance of
                               GoFloat64 balance \<Rightarrow> Some balance
                             | _ \<Rightarrow> None)
                       else None,
                       w\<lparr>cache := Some r'\<rparr>)))
      in case hit of
           Some balance \<Rightarrow> (Inr balance, w1)
         | None \<Rightarrow>
             (case repo_GetBalance repo e accountID (db w1) of
                (Inl err, s) \<Rightarrow> (Inl err, w1\<lparr>db := s\<rparr>)
              | (Inr balance, s) \<Rightarrow>
                  (Inr balance,
                   w1\<lparr>db := s,
                      cache := (case cache w1 of
                                  None \<Rightarrow> None
                                | Some r \<Rightarrow>
                                    Some (snd (RedisCacheService_Set e json
                                                 (balance_key accountID)
                                                 (GoFloat64 balance) r)))\<rparr>)))"

text \<open>\<open>LogUserActivity\<close>: one audit row for a user and an entity.\<close>

definition LogUserActivity ::
  "env \<Rightarrow> uuid \<Rightarrow> string \<Rightarrow> string \<Rightarrow> string \<Rightarrow> store \<Rightarrow> error option \<times> store" where
  "LogUserActivity e userID action entityType entityID s =
     (if fails e CreateAuditLog then (Some (StoreError CreateAuditLog), s)
      else (None, s\<lparr>audit_logs := audit_logs s @
                       [\<lparr>al_ID = new_audit_id e, al_UserID = Some userID, al_Action = action,
                         al_EntityType = entityType, al_EntityID = entityID,
                         al_CreatedAt = now_audit e\<rparr>]\<rparr>))"

text \<open>
  \<open>BalanceService.SafeUpdateBalance\<close>, under the account's lock: read, add, refuse a
  negative result, write, save history (its error is only printed), delete the cache key,
  write the audit row.
\<close>

definition SafeUpdateBalance ::
  "env \<Rightarrow> BalanceRepository \<Rightarrow> uuid \<Rightarrow> amount \<Rightarrow> world \<Rightarrow> error option \<times> world" where
  "SafeUpdateBalance e repo accountID amt w =
     (case repo_GetBalance repo e accountID (db w) of
        (Inl err, s0) \<Rightarrow> (Some err, w\<lparr>db := s0\<rparr>)
      | (Inr currentBalance, s0) \<Rightarrow>
          (let newBalance = currentBalance + amt in
           if newBalance < 0
           then (Some (InsufficientBalance currentBalance (- amt)), w\<lparr>db := s0\<rparr>)
           else
             (case repo_UpdateBalance repo e accountID newBalance s0 of
                (Some err, s1) \<Rightarrow> (Some err, w\<lparr>db := s1\<rparr>)
              | (None, s1) \<Rightarrow>
                  (let s2 = snd (repo_SaveBalanceHistory repo e accountID newBalance
                                   (now_tx e) s1);
                       c' = (case cache w of
                               None \<Rightarrow> None
                             | Some r \<Rightarrow>
                                 Some (snd (RedisCacheService_Delete e
                                              (balance_key accountID) r)));
                       action = (if amt < 0 then ''BALANCE_DEBIT'' else ''BALANCE_CREDIT'');
                       s3 = (if has_audit e
                             then snd (LogUserActivity e accountID action ''balance''
                                         accountID s2)
                             else s2)
                   in (None, w\<lparr>db := s3, cache := c'\<rparr>)))))"

section \<open>Balance history and the balance at a time\<close>

text \<open>
  \<open>GetAuditLogsByEntityID\<close>: the rows of the entity, newest first, then offset and limit.
  Rows with equal time stamps come in the order the sort leaves them in.
\<close>

definition GetAuditLogsByEntityID ::
  "env \<Rightarrow> string \<Rightarrow> nat \<Rightarrow> nat \<Rightarrow> store \<Rightarrow> error + AuditLog list" where
  "GetAuditLogsByEntityID e entityID limit offset s =
     (if fails e QueryAuditLogs then Inl (StoreError QueryAuditLogs)
      else Inr (take limit (drop offset
                  (sort_key (\<lambda>l. - al_CreatedAt l)
                     (filter (\<lambda>l. al_EntityID l = entityID) (audit_logs s))))))"

text \<open>
  \<open>BalanceService.GetBalanceHistory\<close> builds the history from the audit rows of the
  account; the amounts of an entry are never filled in and stay zero.
\<close>

definition history_of_log :: "uuid \<Rightarrow> AuditLog \<Rightarrow> BalanceHistory" where
  "history_of_log accountID l =
     \<lparr>bh_ID = al_ID l, bh_UserID = accountID, bh_PreviousAmount = 0, bh_NewAmount = 0,
      bh_ChangeAmount = 0, bh_ChangeType = al_Action l, bh_CreatedAt = al_CreatedAt l\<rparr>"

definition GetBalanceHistory :: "env \<Rightarrow> uuid \<Rightarrow> store \<Rightarrow> error + BalanceHistory list" where
  "GetBalanceHistory e accountID s =
     (if \<not> has_audit e then Inr []
      else case GetAuditLogsByEntityID e accountID 100 0 s of
             Inl err \<Rightarrow> Inl err
           | Inr auditLogs \<Rightarrow>
               Inr (map (history_of_log accountID)
                      (filter (\<lambda>l. al_Action l = ''BALANCE_UPDATE'' \<or>
                                   al_Action l = ''BALANCE_CREDIT'' \<or>
                                   al_Action l = ''BALANCE_DEBIT'') auditLogs)))"

text \<open>
  The loop of the \<open>GetBalanceAtTime\<close> handler: every entry that is not after the time
  stamp overwrites the result, so the last such entry of the list wins.
\<close>

fun scan_history :: "BalanceHistory list \<Rightarrow> time \<Rightarrow> amount \<times> bool \<Rightarrow> amount \<times> bool" where
  "scan_history [] timestamp acc = acc"
| "scan_history (entry # rest) timestamp acc =
     scan_history rest timestamp
       (if bh_CreatedAt entry < timestamp \<or> bh_CreatedAt entry = timestamp
        then (bh_NewAmount entry, True) else acc)"

text \<open>
  The handler after its request parsing: the balance and the \<open>calculated\<close> flag of the
  response, or the error that makes it answer 500.
\<close>

definition GetBalanceAtTime ::
  "env \<Rightarrow> (amount \<Rightarrow> string) \<Rightarrow> BalanceRepository \<Rightarrow> uuid \<Rightarrow> time \<Rightarrow> world
     \<Rightarrow> (error + amount \<times> bool) \<times> world" where
  "GetBalanceAtTime e json repo userID timestamp w =
     (case GetBalanceHistory e userID (db w) of
        Inl err \<Rightarrow> (Inl err, w)
      | Inr history \<Rightarrow>
          (case scan_history history timestamp (0, False) of
             (balanceAtTime, found) \<Rightarrow>
               if \<not> found
               then (case GetBalance e json repo userID w of
                       (Inl err, w') \<Rightarrow> (Inl err, w')
                     | (Inr currentBalance, w') \<Rightarrow> (Inr (currentBalance, found), w'))
               else (Inr (balanceAtTime, found), w)))"

section \<open>Paging parameters of the transaction history\<close>

text \<open>
  \<open>strconv.Atoi\<close>: an optional sign, then at least one decimal digit and nothing else;
  a value outside the 64-bit \<open>int\<close> is an error. \<open>None\<close> is the error.
\<close>

definition is_digit :: "char \<Rightarrow> bool" where
  "is_digit c = (48 \<le> (of_char c :: nat) \<and> (of_char c :: nat) \<le> 57)"

fun digits_value :: "string \<Rightarrow> nat \<Rightarrow> nat option" where
  "digits_value [] acc = Some acc"
| "digits_value (c # cs) acc =
     (if is_digit c then digits_value cs (acc * 10 + (of_char c - 48)) else None)"

definition Atoi :: "string \<Rightarrow> int option" where
  "Atoi s =
     (let (neg, ds) = (case s of
                         [] \<Rightarrow> (False, [])
                       | c # cs \<Rightarrow> if c = CHR ''-'' then (True, cs)
                                   else if c = CHR ''+'' then (False, cs)
                                   else (False, s))
      in if ds = [] then None
         else case digits_value ds 0 of
                None \<Rightarrow> None
              | Some n \<Rightarrow>
                  (let v = (if neg then - int n else int n)
                   in if v < - (2 ^ 63) \<or> 2 ^ 63 - 1 < v then None else Some v))"

text \<open>\<open>c.DefaultQuery(key, d)\<close>: the default only when the parameter is absent.\<close>

definition DefaultQuery :: "string option \<Rightarrow> string \<Rightarrow> string" where
  "DefaultQuery q d = (case q of None \<Rightarrow> d | Some v \<Rightarrow> v)"

text \<open>The limit and the offset that \<open>GetTransactionHistory\<close> hands to the service.\<close>

definition history_limit :: "string option \<Rightarrow> int" where
  "history_limit q =
     (case Atoi (DefaultQuery q ''50'') of
        None \<Rightarrow> 50
      | Some limit \<Rightarrow> if limit \<le> 0 \<or> limit > 100 then 50 else limit)"

definition history_offset :: "string option \<Rightarrow> int" where
  "history_offset q =
     (case Atoi (DefaultQuery q ''0'') of
        None \<Rightarrow> 0
      | Some offset \<Rightarrow> if offset < 0 then 0 else offset)"

text \<open>The clamp into \<open>[1, 100]\<close> that the specification describes, for comparison.\<close>

definition spec_clamp_limit :: "int \<Rightarrow> int" where
  "spec_clamp_limit n = max 1 (min 100 n)"

text \<open>
  The decimal numeral of an integer, as a client writes it into the query string.
\<close>

fun decimal :: "nat \<Rightarrow> string" where
  "decimal n = (if n < 10 then [char_of (48 + n)]
                else decimal (n div 10) @ [char_of (48 + n mod 10)])"

definition decimal_text :: "int \<Rightarrow> string" where
  "decimal_text n = (if n < 0 then CHR ''-'' # decimal (nat (- n)) else decimal (nat n))"


section \<open>Transaction counters\<close>

type_synonym int64 = "64 word"

definition MaxInt64 :: int64 where
  "MaxInt64 = 0x7FFFFFFFFFFFFFFF"

record TransactionCounters =
  totalTransactions :: int64
  successfulTransactions :: int64
  failedTransactions :: int64
  pendingTransactions :: int64
  transferCount :: int64
  depositCount :: int64
  withdrawCount :: int64
  totalAmountProcessed :: int64
  largestTransaction :: int64
  smallestTransaction :: int64
  averageProcessingTime :: int64
  fastestTransaction :: int64
  slowestTransaction :: int64
  validationErrors :: int64
  insufficientBalanceErrors :: int64
  systemErrors :: int64
  retryCount :: int64

definition NewTransactionCounters :: TransactionCounters where
  "NewTransactionCounters =
     \<lparr>totalTransactions = 0, successfulTransactions = 0, failedTransactions = 0,
      pendingTransactions = 0, transferCount = 0, depositCount = 0, withdrawCount = 0,
      totalAmountProcessed = 0, largestTransaction = 0, smallestTransaction = MaxInt64,
      averageProcessingTime = 0, fastestTransaction = MaxInt64, slowestTransaction = 0,
      validationErrors = 0, insufficientBalanceErrors = 0, systemErrors = 0,
      retryCount = 0\<rparr>"

definition IncrementTotalTransactions :: "TransactionCounters \<Rightarrow> TransactionCounters" where
  "IncrementTotalTransactions tc = tc\<lparr>totalTransactions := totalTransactions tc + 1\<rparr>"

definition IncrementSuccessfulTransactions :: "TransactionCounters \<Rightarrow> TransactionCounters" where
  "IncrementSuccessfulTransactions tc =
     tc\<lparr>successfulTransactions := successfulTransactions tc + 1\<rparr>"

definition IncrementFailedTransactions :: "TransactionCounters \<Rightarrow> TransactionCounters" where
  "IncrementFailedTransactions tc = tc\<lparr>failedTransactions := failedTransactions tc + 1\<rparr>"

definition IncrementPendingTransactions :: "TransactionCounters \<Rightarrow> TransactionCounters" where
  "IncrementPendingTransactions tc = tc\<lparr>pendingTransactions := pendingTransactions tc + 1\<rparr>"

definition DecrementPendingTransactions :: "TransactionCounters \<Rightarrow> TransactionCounters" where
  "DecrementPendingTransactions tc = tc\<lparr>pendingTransactions := pendingTransactions tc - 1\<rparr>"

definition IncrementTransactionType ::
  "TransactionType \<Rightarrow> TransactionCounters \<Rightarrow> TransactionCounters" where
  "IncrementTransactionType transactionType tc =
     (if transactionType = TransactionTypeTransfer
      then tc\<lparr>transferCount := transferCount tc + 1\<rparr>
      else if transactionType = TransactionTypeDeposit
      then tc\<lparr>depositCount := depositCount tc + 1\<rparr>
      else if transactionType = TransactionTypeWithdraw
      then tc\<lparr>withdrawCount := withdrawCount tc + 1\<rparr>
      else tc)"

text \<open>
  \<open>int64(x)\<close> for a float: the fraction is cut off. A value outside the 64-bit range is
  taken modulo \<open>2 ^ 64\<close> here; Go leaves that case to the platform.
\<close>

definition int64_of_float :: "amount \<Rightarrow> int64" where
  "int64_of_float x = word_of_int (if 0 \<le> x then \<lfloor>x\<rfloor> else \<lceil>x\<rceil>)"

text \<open>
  The compare-and-swap loops on the extremes: with no other writer in between, the swap
  succeeds at its first attempt, so each loop body runs once.
\<close>

definition AddAmountProcessed :: "amount \<Rightarrow> TransactionCounters \<Rightarrow> TransactionCounters" where
  "AddAmountProcessed amt tc =
     (let amountInCents = int64_of_float (amt * 100);
          tc1 = tc\<lparr>totalAmountProcessed := totalAmountProcessed tc + amountInCents\<rparr>;
          tc2 = (if sint amountInCents \<le> sint (largestTransaction tc1) then tc1
                 else tc1\<lparr>largestTransaction := amountInCents\<rparr>);
          tc3 = (if sint amountInCents \<ge> sint (smallestTransaction tc2) then tc2
                 else tc2\<lparr>smallestTransaction := amountInCents\<rparr>)
      in tc3)"

text \<open>A call either returns or panics; a call that never returns has no result at all.\<close>

datatype 'a result = Returns 'a | Panics

text \<open>Go's \<open>/\<close> on \<open>int64\<close> cuts towards zero; the callers check the divisor first.\<close>

definition int64_div :: "int64 \<Rightarrow> int64 \<Rightarrow> int64" where
  "int64_div a b = word_of_int (sint a sdiv sint b)"

text \<open>
  The loop on the average in \<open>RecordProcessingTime\<close>. While the successful count is zero
  the swap expects the average to be zero, not the value just read; when it is not, the
  swap fails and the loop starts over with nothing changed. \<open>None\<close>: the loop never ends.
\<close>

partial_function (option) average_loop ::
  "int64 \<Rightarrow> TransactionCounters \<Rightarrow> TransactionCounters result option" where
  "average_loop durationNs tc =
     (let current = averageProcessingTime tc; total = successfulTransactions tc
      in if total = 0
         then (if averageProcessingTime tc = 0
               then Some (Returns (tc\<lparr>averageProcessingTime := durationNs\<rparr>))
               else average_loop durationNs tc)
         else if total + 1 = 0 then Some Panics
         else Some (Returns (tc\<lparr>averageProcessingTime :=
                                   int64_div (current * total + durationNs) (total + 1)\<rparr>)))"

definition RecordProcessingTime ::
  "int64 \<Rightarrow> TransactionCounters \<Rightarrow> TransactionCounters result option" where
  "RecordProcessingTime durationNs tc =
     (case average_loop durationNs tc of
        None \<Rightarrow> None
      | Some Panics \<Rightarrow> Some Panics
      | Some (Returns tc1) \<Rightarrow>
          (let tc2 = (if sint durationNs \<ge> sint (fastestTransaction tc1) then tc1
                      else tc1\<lparr>fastestTransaction := durationNs\<rparr>);
               tc3 = (if sint durationNs \<le> sint (slowestTransaction tc2) then tc2
                      else tc2\<lparr>slowestTransaction := durationNs\<rparr>)
           in Some (Returns tc3)))"

definition IncrementErrorType :: "string \<Rightarrow> TransactionCounters \<Rightarrow> TransactionCounters" where
  "IncrementErrorType errorType tc =
     (if errorType = ''validation'' then tc\<lparr>validationErrors := validationErrors tc + 1\<rparr>
      else if errorType = ''insufficient_balance''
      then tc\<lparr>insufficientBalanceErrors := insufficientBalanceErrors tc + 1\<rparr>
      else if errorType = ''system'' then tc\<lparr>systemErrors := systemErrors tc + 1\<rparr>
      else tc)"

definition IncrementRetryCount :: "TransactionCounters \<Rightarrow> TransactionCounters" where
  "IncrementRetryCount tc = tc\<lparr>retryCount := retryCount tc + 1\<rparr>"

definition Reset :: "TransactionCounters \<Rightarrow> TransactionCounters" where
  "Reset tc =
     tc\<lparr>totalTransactions := 0, successfulTransactions := 0, failedTransactions := 0,
        pendingTransactions := 0, transferCount := 0, depositCount := 0, withdrawCount := 0,
        totalAmountProcessed := 0, largestTransaction := 0, smallestTransaction := MaxInt64,
        averageProcessingTime := 0, fastestTransaction := MaxInt64, slowestTransaction := 0,
        validationErrors := 0, insufficientBalanceErrors := 0, systemErrors := 0,
        retryCount := 0\<rparr>"

text \<open>The two messages \<open>RecordTransaction\<close> looks for, as UTF-8 bytes.\<close>

definition msg_insufficient :: string where
  "msg_insufficient = ''yetersiz bakiye''"

definition msg_validation :: string where
  "msg_validation =
     ''i'' @ [CHR 0xC5, CHR 0x9F] @ ''lem do'' @ [CHR 0xC4, CHR 0x9F] @ ''rulama hatas'' @
     [CHR 0xC4, CHR 0xB1]"

text \<open>
  \<open>RecordTransaction\<close>. The transaction is a pointer: reading \<open>transaction.Type\<close> of a
  \<open>nil\<close> pointer panics, after the total has been incremented. The error is an interface
  value, \<open>None\<close> for \<open>nil\<close>, otherwise its message.
\<close>

definition RecordTransaction ::
  "Transaction option \<Rightarrow> bool \<Rightarrow> int64 \<Rightarrow> string option \<Rightarrow> TransactionCounters
     \<Rightarrow> TransactionCounters result option" where
  "RecordTransaction transaction success processingTime err tc =
     (let tc1 = IncrementTotalTransactions tc
      in case transaction of
           None \<Rightarrow> Some Panics
         | Some t \<Rightarrow>
             (let tc2 = IncrementTransactionType (Type t) tc1;
                  tc3 = AddAmountProcessed (Amount t) tc2
              in case RecordProcessingTime processingTime tc3 of
                   None \<Rightarrow> None
                 | Some Panics \<Rightarrow> Some Panics
                 | Some (Returns tc4) \<Rightarrow>
                     if success
                     then Some (Returns (DecrementPendingTransactions
                                           (IncrementSuccessfulTransactions tc4)))
                     else
                       (let tc5 = DecrementPendingTransactions
                                    (IncrementFailedTransactions tc4)
                        in case err of
                             None \<Rightarrow> Some (Returns tc5)
                           | Some msg \<Rightarrow>
                               (let errorType =
                                      (if msg = msg_insufficient then ''insufficient_balance''
                                       else if msg = msg_validation then ''validation''
                                       else ''system'')
                                in Some (Returns (IncrementErrorType errorType tc5))))))"

text \<open>The operations of the component, for runs of arbitrary calls.\<close>

datatype counter_op =
    OpIncrementTotal | OpIncrementSuccessful | OpIncrementFailed
  | OpIncrementPending | OpDecrementPending
  | OpIncrementType TransactionType | OpAddAmount amount | OpRecordTime int64
  | OpIncrementError string | OpIncrementRetry | OpReset
  | OpRecord "Transaction option" bool int64 "string option"

fun apply_op :: "counter_op \<Rightarrow> TransactionCounters \<Rightarrow> TransactionCounters result option" where
  "apply_op OpIncrementTotal tc = Some (Returns (IncrementTotalTransactions tc))"
| "apply_op OpIncrementSuccessful tc = Some (Returns (IncrementSuccessfulTransactions tc))"
| "apply_op OpIncrementFailed tc = Some (Returns (IncrementFailedTransactions tc))"
| "apply_op OpIncrementPending tc = Some (Returns (IncrementPendingTransactions tc))"
| "apply_op OpDecrementPending tc = Some (Returns (DecrementPendingTransactions tc))"
| "apply_op (OpIncrementType ty) tc = Some (Returns (IncrementTransactionType ty tc))"
| "apply_op (OpAddAmount a) tc = Some (Returns (AddAmountProcessed a tc))"
| "apply_op (OpRecordTime d) tc = RecordProcessingTime d tc"
| "apply_op (OpIncrementError s) tc = Some (Returns (IncrementErrorType s tc))"
| "apply_op OpIncrementRetry tc = Some (Returns (IncrementRetryCount tc))"
| "apply_op OpReset tc = Some (Returns (Reset tc))"
| "apply_op (OpRecord t ok d err) tc = RecordTransaction t ok d err tc"


fun run :: "counter_op list \<Rightarrow> TransactionCounters \<Rightarrow> TransactionCounters result option" where
  "run [] tc = Some (Returns tc)"
| "run (op # ops) tc =
     (case apply_op op tc of
        None \<Rightarrow> None
      | Some Panics \<Rightarrow> Some Panics
      | Some (Returns tc') \<Rightarrow> run ops tc')"




section \<open>The worker pool\<close>

record TransactionJob =
  job_ID :: uuid
  job_TransactionType :: string
  job_FromAccountID :: uuid
  job_ToAccountID :: uuid
  job_Amount :: amount
  job_RetryCount :: int64
  job_MaxRetries :: int64
  job_CreatedAt :: time

record TransactionResult =
  res_JobID :: uuid
  res_Transaction :: "Transaction option"
  res_Success :: bool
  res_Error :: "string option"
  res_ProcessedAt :: time
  res_ProcessingTime :: int64
  res_RetryCount :: int64

text \<open>
  The pool as far as submission goes: the buffered job channel with its capacity, whether
  the pool's context has been cancelled, and the counters.
\<close>

record WorkerPool =
  jobQueue :: "TransactionJob list"
  maxQueueSize :: nat
  cancelled :: bool
  counters :: TransactionCounters

datatype pool_error = PoolClosed | QueueFull

text \<open>
  A \<open>select\<close> picks one of the cases that can proceed; the model lists the results of all
  of them. A \<open>default\<close> case runs only when no other can. Without a \<open>default\<close> and with no
  case that can proceed the goroutine waits: the list is empty.
\<close>

definition can_send :: "WorkerPool \<Rightarrow> bool" where
  "can_send wp = (length (jobQueue wp) < maxQueueSize wp)"

definition SubmitJob :: "WorkerPool \<Rightarrow> TransactionJob \<Rightarrow> (pool_error option \<times> WorkerPool) list" where
  "SubmitJob wp job =
     (let ready =
            (if can_send wp
             then [(None, wp\<lparr>jobQueue := jobQueue wp @ [job],
                             counters := IncrementPendingTransactions (counters wp)\<rparr>)]
             else []) @
            (if cancelled wp then [(Some PoolClosed, wp)] else [])
      in if ready = [] then [(Some QueueFull, wp)] else ready)"

text \<open>
  \<open>handleRetry\<close>: the retry count goes up, the delay is its square in seconds, at most
  thirty. The result is the job and the delay in nanoseconds.
\<close>

definition handleRetry :: "TransactionJob \<Rightarrow> TransactionJob \<times> int64" where
  "handleRetry job =
     (let job' = job\<lparr>job_RetryCount := job_RetryCount job + 1\<rparr>;
          backoffDuration = (job_RetryCount job' * job_RetryCount job') * 1000000000
      in (job', if sint backoffDuration > sint (30 * 1000000000 :: int64)
                then 30 * 1000000000 else backoffDuration))"

datatype retry_outcome = Requeued WorkerPool | Dropped WorkerPool

text \<open>The function that the timer runs: a \<open>select\<close> with two cases and no \<open>default\<close>.\<close>

definition retry_fire :: "WorkerPool \<Rightarrow> TransactionJob \<Rightarrow> retry_outcome list" where
  "retry_fire wp job =
     (if can_send wp
      then [Requeued (wp\<lparr>jobQueue := jobQueue wp @ [job],
                         counters := IncrementRetryCount (counters wp)\<rparr>)]
      else []) @
     (if cancelled wp then [Dropped wp] else [])"

text \<open>
  \<open>processResults\<close>: every result of the channel goes to \<open>RecordTransaction\<close>, with \<open>nil\<close>
  for the transaction.
\<close>

definition record_result ::
  "TransactionResult \<Rightarrow> TransactionCounters \<Rightarrow> TransactionCounters result option" where
  "record_result r tc =
     RecordTransaction None (res_Success r) (res_ProcessingTime r) (res_Error r) tc"

fun processResults ::
  "TransactionResult list \<Rightarrow> TransactionCounters \<Rightarrow> TransactionCounters result option" where
  "processResults [] tc = Some (Returns tc)"
| "processResults (r # rs) tc =
     (case record_result r tc of
        None \<Rightarrow> None
      | Some Panics \<Rightarrow> Some Panics
      | Some (Returns tc') \<Rightarrow> processResults rs tc')"

section \<open>Concrete inputs\<close>

text \<open>
  A run in which no call fails, a store with two accounts, and a cache that holds the
  balance of the first one.
\<close>

definition env_ok :: env where
  "env_ok = \<lparr>fails = (\<lambda>_. False), new_tx_id = ''tx-1'', new_audit_id = ''audit-1'',
             now_tx = 1000, now_audit = 1001, has_audit = True\<rparr>"

definition store0 :: store where
  "store0 = \<lparr>balances = [''alice'' \<mapsto> 100, ''bob'' \<mapsto> 20], transactions = [],
             balance_history = [], audit_logs = []\<rparr>"

definition redis0 :: RedisCacheService where
  "redis0 = \<lparr>kv = [balance_key ''alice'' \<mapsto> ''100''], Hits = 0, Misses = 0, Sets = 0,
             Deletes = 0, Errors = 0\<rparr>"

definition world0 :: world where
  "world0 = \<lparr>db = store0, cache = Some redis0\<rparr>"

text \<open>A job, a pool whose queue is full and a pool whose queue has room.\<close>

definition job0 :: TransactionJob where
  "job0 = \<lparr>job_ID = ''job-1'', job_TransactionType = ''credit'', job_FromAccountID = uuid_Nil,
           job_ToAccountID = ''alice'', job_Amount = 50, job_RetryCount = 0,
           job_MaxRetries = 3, job_CreatedAt = 900\<rparr>"

definition pool_full :: WorkerPool where
  "pool_full = \<lparr>jobQueue = [job0], maxQueueSize = 1, cancelled = False,
                counters = NewTransactionCounters\<rparr>"

definition pool_room :: WorkerPool where
  "pool_room = \<lparr>jobQueue = [], maxQueueSize = 1, cancelled = False,
                counters = NewTransactionCounters\<rparr>"

text \<open>
  An account whose two balance changes are in the audit log, and a history of the same two
  changes as it would come newest first from a history table.
\<close>

definition json0 :: "amount \<Rightarrow> string" where
  "json0 x = ''0''"

definition store_hist :: store where
  "store_hist = \<lparr>balances = [''alice'' \<mapsto> 150], transactions = [], balance_history = [],
     audit_logs =
       [\<lparr>al_ID = ''a1'', al_UserID = Some ''alice'', al_Action = ''BALANCE_CREDIT'',
         al_EntityType = ''balance'', al_EntityID = ''alice'', al_CreatedAt = 100\<rparr>,
        \<lparr>al_ID = ''a2'', al_UserID = Some ''alice'', al_Action = ''BALANCE_CREDIT'',
         al_EntityType = ''balance'', al_EntityID = ''alice'', al_CreatedAt = 200\<rparr>]\<rparr>"

definition world_hist :: world where
  "world_hist = \<lparr>db = store_hist, cache = None\<rparr>"

definition history_newest_first :: "BalanceHistory list" where
  "history_newest_first =
     [\<lparr>bh_ID = ''h2'', bh_UserID = ''alice'', bh_PreviousAmount = 120, bh_NewAmount = 150,
       bh_ChangeAmount = 30, bh_ChangeType = ''BALANCE_CREDIT'', bh_CreatedAt = 200\<rparr>,
      \<lparr>bh_ID = ''h1'', bh_UserID = ''alice'', bh_PreviousAmount = 0, bh_NewAmount = 120,
       bh_ChangeAmount = 120, bh_ChangeType = ''BALANCE_CREDIT'', bh_CreatedAt = 100\<rparr>]"



section \<open>Facts about the store operations\<close>

lemma audit_tx_keeps:
  "balances (audit_tx e t a s) = balances s"
  "transactions (audit_tx e t a s) = transactions s"
  "balance_history (audit_tx e t a s) = balance_history s"
  by (simp_all add: audit_tx_def LogTransactionActivity_def Let_def)

lemma db_Transaction_failed:
  "db_Transaction e body s = (Some err, s') \<Longrightarrow> s' = s"
  by (auto simp: db_Transaction_def split: if_splits sum.splits)


lemmas eval_defs = env_ok_def store0_def redis0_def world0_def balance_key_def
  db_Transaction_def tx_Create_def tx_First_def tx_Update_amount_def tx_Update_status_def
  audit_tx_def LogTransactionActivity_def Let_def

section \<open>Transfer\<close>





section \<open>Debit\<close>

text \<open>
  Claim C2. For an account \<open>U\<close> and an amount \<open>x > 0\<close>: when the transaction of \<open>Debit\<close>
  gets as far as reading the balance and reads a balance \<open>b < x\<close>, \<open>Debit\<close> returns the
  insufficient-balance error and the transaction is rolled back: the balances, the
  balance history and the ledger are what they were, so no history row and no completed
  ledger row reflects the debit.
\<close>

theorem Debit_insufficient_rolls_back:
  assumes "0 < x"
    and "\<not> fails e BeginTx" and "\<not> fails e CreateTransaction"
    and "new_tx_id e \<notin> set (map ID (transactions (db w)))"
    and "\<not> fails e ReadBalance"
    and "balances (db w) U = Some b" and "b < x"
  shows "fst (Debit e U x w) = Some (InsufficientBalance b x) \<and>
         balances (db (snd (Debit e U x w))) = balances (db w) \<and>
         balance_history (db (snd (Debit e U x w))) = balance_history (db w) \<and>
         transactions (db (snd (Debit e U x w))) = transactions (db w)"
  using assms
  by (simp add: Debit_def Let_def db_Transaction_def Debit_body_def tx_Create_def
        tx_First_def audit_tx_keeps)

theorem Debit_insufficient_rolls_back_witness:
  "(0::rat) < 50 \<and> \<not> fails env_ok BeginTx \<and> \<not> fails env_ok CreateTransaction \<and>
   new_tx_id env_ok \<notin> set (map ID (transactions (db world0))) \<and>
   \<not> fails env_ok ReadBalance \<and> balances (db world0) ''bob'' = Some 20 \<and> (20::rat) < 50 \<and>
   fst (Debit env_ok ''bob'' 50 world0) = Some (InsufficientBalance 20 50) \<and>
   balances (db (snd (Debit env_ok ''bob'' 50 world0))) = balances (db world0) \<and>
   balance_history (db (snd (Debit env_ok ''bob'' 50 world0))) = balance_history (db world0) \<and>
   transactions (db (snd (Debit env_ok ''bob'' 50 world0))) = transactions (db world0)"
proof -
  have h: "(0::rat) < 50" "\<not> fails env_ok BeginTx" "\<not> fails env_ok CreateTransaction"
    "new_tx_id env_ok \<notin> set (map ID (transactions (db world0)))"
    "\<not> fails env_ok ReadBalance" "balances (db world0) ''bob'' = Some 20" "(20::rat) < 50"
    by (simp_all add: env_ok_def world0_def store0_def)
  from Debit_insufficient_rolls_back [OF h] h show ?thesis by simp
qed

text \<open>Whatever makes \<open>Debit\<close> fail, the store keeps its balances, history and ledger.\<close>

lemma Debit_failure_rolls_back:
  assumes "fst (Debit e U x w) \<noteq> None"
  shows "balances (db (snd (Debit e U x w))) = balances (db w) \<and>
         balance_history (db (snd (Debit e U x w))) = balance_history (db w) \<and>
         transactions (db (snd (Debit e U x w))) = transactions (db w)"
proof (cases "x \<le> 0")
  case True
  then show ?thesis by (simp add: Debit_def)
next
  case False
  let ?t = "\<lparr>ID = new_tx_id e, FromUserID = Some U, ToUserID = None, Amount = x,
             Type = TransactionTypeWithdraw, Status = TransactionStatusPending,
             Reference = ''Debit transaction'', CreatedAt = now_tx e\<rparr>"
  obtain q s where run: "db_Transaction e (Debit_body e ?t U x) (db w) = (q, s)"
    by (cases "db_Transaction e (Debit_body e ?t U x) (db w)") auto
  with assms False obtain err where q: "q = Some err"
    by (cases q) (auto simp: Debit_def Let_def)
  with run have "s = db w" by (simp add: db_Transaction_failed)
  with False run q show ?thesis
    by (simp add: Debit_def Let_def audit_tx_keeps)
qed

section \<open>The upper bound on amounts\<close>

lemma Credit_run_large:
  "Credit env_ok ''alice'' 2000000 world0 =
     (None, world0\<lparr>db := \<lparr>balances = [''bob'' \<mapsto> 20, ''alice'' \<mapsto> 2000100],
        transactions = [\<lparr>ID = ''tx-1'', FromUserID = None, ToUserID = Some ''alice'',
           Amount = 2000000, Type = TransactionTypeDeposit, Status = TransactionStatusCompleted,
           Reference = ''Credit transaction'', CreatedAt = 1000\<rparr>],
        balance_history = [],
        audit_logs = [\<lparr>al_ID = ''audit-1'', al_UserID = Some ''alice'',
           al_Action = ''CREDIT_COMPLETED'', al_EntityType = ''transaction'',
           al_EntityID = ''tx-1'', al_CreatedAt = 1001\<rparr>]\<rparr>\<rparr>)"
  by (auto simp add: Credit_def Credit_body_def eval_defs)

text \<open>
  Claim C3, at a failing input. A credit of 2,000,000 to an account with balance 100 is
  not rejected: it returns no error, the balance becomes 2,000,100, and the ledger row
  it commits is one that \<open>Validate\<close> turns down as too high.
\<close>

theorem Credit_above_limit_commits:
  "fst (Credit env_ok ''alice'' 2000000 world0) = None \<and>
   balances (db (snd (Credit env_ok ''alice'' 2000000 world0))) ''alice'' = Some 2000100 \<and>
   map Validate (transactions (db (snd (Credit env_ok ''alice'' 2000000 world0)))) =
     [Some AmountTooHigh]"
  by (simp add: Credit_run_large Validate_def)

section \<open>Cache invalidation\<close>

lemma Credit_keeps_cache: "cache (snd (Credit e u x w)) = cache w"
  by (simp add: Credit_def Let_def split: prod.splits option.splits)

lemma Debit_keeps_cache: "cache (snd (Debit e u x w)) = cache w"
  by (simp add: Debit_def Let_def split: prod.splits option.splits)

lemma Transfer_keeps_cache: "cache (snd (Transfer e a b x w)) = cache w"
  by (simp add: Transfer_def Let_def split: prod.splits option.splits)

lemma SafeUpdateBalance_deletes_key:
  assumes "SafeUpdateBalance e repo u x w = (None, w')"
    and "cache w = Some r" and "\<not> fails e RedisDel"
  shows "\<exists>r'. cache w' = Some r' \<and> kv r' (balance_key u) = None"
  using assms
  by (auto simp: SafeUpdateBalance_def RedisCacheService_Delete_def Let_def
        split: prod.splits sum.splits option.splits if_splits)

lemma Credit_run_small:
  "Credit env_ok ''alice'' 50 world0 =
     (None, world0\<lparr>db := \<lparr>balances = [''bob'' \<mapsto> 20, ''alice'' \<mapsto> 150],
        transactions = [\<lparr>ID = ''tx-1'', FromUserID = None, ToUserID = Some ''alice'',
           Amount = 50, Type = TransactionTypeDeposit, Status = TransactionStatusCompleted,
           Reference = ''Credit transaction'', CreatedAt = 1000\<rparr>],
        balance_history = [],
        audit_logs = [\<lparr>al_ID = ''audit-1'', al_UserID = Some ''alice'',
           al_Action = ''CREDIT_COMPLETED'', al_EntityType = ''transaction'',
           al_EntityID = ''tx-1'', al_CreatedAt = 1001\<rparr>]\<rparr>\<rparr>)"
  by (auto simp add: Credit_def Credit_body_def eval_defs)

text \<open>
  Claim C4, at a failing input. The cache holds \<open>100\<close> under the balance key of the
  account. A credit of 50 commits, the stored balance is 150, and when \<open>Credit\<close> returns
  the cache is what it was: the key is still there with the value from before the commit.
\<close>

theorem Credit_leaves_cached_balance:
  "fst (Credit env_ok ''alice'' 50 world0) = None \<and>
   balances (db (snd (Credit env_ok ''alice'' 50 world0))) ''alice'' = Some 150 \<and>
   cache (snd (Credit env_ok ''alice'' 50 world0)) = Some redis0 \<and>
   kv redis0 (balance_key ''alice'') = Some ''100''"
proof -
  have "kv redis0 (balance_key ''alice'') = Some ''100''"
    by (simp add: redis0_def)
  moreover have "cache world0 = Some redis0"
    by (simp add: world0_def)
  ultimately show ?thesis
    by (simp add: Credit_run_small)
qed

section \<open>Recording results in the counters\<close>

text \<open>
  Claim C5, at every input. The result processor hands \<open>nil\<close> to \<open>RecordTransaction\<close>,
  which reads the type of the transaction: recording a result panics, whatever the
  result and the counters are.
\<close>

theorem record_result_panics: "record_result r tc = Some Panics"
  by (simp add: record_result_def RecordTransaction_def)

lemma processResults_panics: "processResults (r # rs) tc = Some Panics"
  by (simp add: record_result_def RecordTransaction_def)

section \<open>Reading a balance through the Redis cache\<close>

lemma RedisCacheService_Get_no_float:
  "fst (RedisCacheService_Get e key r) \<noteq> GoFloat64 x"
  by (simp add: RedisCacheService_Get_def split: option.splits)

text \<open>
  Claim C10. With the Redis cache, \<open>GetBalance\<close> never answers from the cache: a hit is a
  string, the hit branch wants a \<open>float64\<close>, so whatever the cache holds the answer is
  the one the repository gives for the store as it is.
\<close>

theorem GetBalance_reads_store:
  "fst (GetBalance e json repo u w) = fst (repo_GetBalance repo e u (db w))"
  by (auto simp: GetBalance_def RedisCacheService_Get_def Let_def
      split: option.splits prod.splits sum.splits go_value.splits if_splits)

section \<open>Retrying a failed job\<close>

lemma handleRetry_first:
  "handleRetry job0 = (job0\<lparr>job_RetryCount := 1\<rparr>, 1000000000)"
  by (simp add: handleRetry_def job0_def Let_def)

text \<open>
  Claim C6, refuted at a full queue. The queue of a live pool is full. A first-time
  submission of the job is turned down at once with the queue-full error; the re-enqueue
  of the same job after its backoff has no case that can proceed, so it neither enqueues
  nor fails: it waits.
\<close>

theorem retry_fire_full_queue_waits:
  "\<not> can_send pool_full \<and> \<not> cancelled pool_full \<and>
   SubmitJob pool_full (fst (handleRetry job0)) = [(Some QueueFull, pool_full)] \<and>
   retry_fire pool_full (fst (handleRetry job0)) = []"
  by (simp add: SubmitJob_def retry_fire_def can_send_def pool_full_def Let_def)

text \<open>
  Claim C6, amended. When the backoff timer fires, the job is sent to the queue by a
  blocking \<open>select\<close>: the re-enqueue waits exactly when the queue is full and the pool has
  not been shut down; with room in the queue the job can be appended, and the retry
  counter is incremented; it is appended only when there is room, and it is dropped only
  when the pool has been shut down, which leaves the pool as it is. No outcome is a
  queue-full error.
\<close>

theorem retry_fire_outcomes:
  "(retry_fire wp job = [] \<longleftrightarrow> \<not> can_send wp \<and> \<not> cancelled wp) \<and>
   (can_send wp \<longrightarrow>
      Requeued (wp\<lparr>jobQueue := jobQueue wp @ [job],
                    counters := IncrementRetryCount (counters wp)\<rparr>) \<in> set (retry_fire wp job)) \<and>
   (\<forall>wp'. Requeued wp' \<in> set (retry_fire wp job) \<longrightarrow> can_send wp) \<and>
   (\<forall>wp'. Dropped wp' \<in> set (retry_fire wp job) \<longrightarrow> cancelled wp \<and> wp' = wp)"
  by (auto simp: retry_fire_def split: if_splits)

theorem retry_fire_outcomes_witness:
  "can_send pool_room \<and>
   Requeued (pool_room\<lparr>jobQueue := jobQueue pool_room @ [job0],
                       counters := IncrementRetryCount (counters pool_room)\<rparr>)
     \<in> set (retry_fire pool_room job0) \<and>
   \<not> can_send pool_full \<and> \<not> cancelled pool_full \<and> retry_fire pool_full job0 = []"
proof -
  have a: "can_send pool_room" by (simp add: can_send_def pool_room_def)
  have b: "\<not> can_send pool_full \<and> \<not> cancelled pool_full"
    by (simp add: can_send_def pool_full_def)
  from retry_fire_outcomes [of pool_room job0] a
  have "Requeued (pool_room\<lparr>jobQueue := jobQueue pool_room @ [job0],
                       counters := IncrementRetryCount (counters pool_room)\<rparr>)
     \<in> set (retry_fire pool_room job0)" by blast
  moreover from retry_fire_outcomes [of pool_full job0] b
  have "retry_fire pool_full job0 = []" by blast
  ultimately show ?thesis using a b by simp
qed

section \<open>The balance at a time\<close>

lemma hist_eval: "GetBalanceHistory env_ok ''alice'' store_hist =
   Inr [\<lparr>bh_ID = ''a2'', bh_UserID = ''alice'', bh_PreviousAmount = 0, bh_NewAmount = 0,
       bh_ChangeAmount = 0, bh_ChangeType = ''BALANCE_CREDIT'', bh_CreatedAt = 200\<rparr>,
      \<lparr>bh_ID = ''a1'', bh_UserID = ''alice'', bh_PreviousAmount = 0, bh_NewAmount = 0,
       bh_ChangeAmount = 0, bh_ChangeType = ''BALANCE_CREDIT'', bh_CreatedAt = 100\<rparr>]"
  by (simp add: GetBalanceHistory_def GetAuditLogsByEntityID_def env_ok_def store_hist_def
      history_of_log_def)

text \<open>
  Claim C7, at a failing input. The account has two balance changes, at times 100 and
  200, and the balance at time 250 is asked for. The handler answers 0 with
  \<open>calculated = true\<close>: the history it scans is built from audit rows and carries no
  amounts. And on a history that does carry them, newest first as the store returns it,
  the scan ends on the oldest entry: it answers 120, the amount after the change at time
  100, where the latest entry not after 250 has 150.
\<close>

theorem GetBalanceAtTime_not_latest:
  "fst (GetBalanceAtTime env_ok json0 gorm_repo ''alice'' 250 world_hist) = Inr (0, True) \<and>
   scan_history history_newest_first 250 (0, False) = (120, True)"
  by (simp add: GetBalanceAtTime_def world_hist_def hist_eval history_newest_first_def)

lemma scan_history_none_before:
  assumes "\<forall>x \<in> set h. ts < bh_CreatedAt x"
  shows "scan_history h ts acc = acc"
  using assms by (induction h arbitrary: acc) auto

section \<open>Paging parameters\<close>

declare decimal.simps [simp del]

lemma digit_char:
  "k < 10 \<Longrightarrow> is_digit (char_of (48 + k)) \<and> (of_char (char_of (48 + k)) :: nat) = 48 + k"
  for k :: nat
  by (simp add: is_digit_def)

lemma digits_value_append:
  "digits_value (xs @ ys) acc =
     (case digits_value xs acc of None \<Rightarrow> None | Some a \<Rightarrow> digits_value ys a)"
  by (induction xs arbitrary: acc) auto

lemma digits_value_decimal: "digits_value (decimal n) 0 = Some n"
proof (induction n rule: decimal.induct)
  case (1 n)
  show ?case
  proof (cases "n < 10")
    case True
    then show ?thesis
      by (subst decimal.simps) (simp add: digit_char)
  next
    case False
    have d: "n mod 10 < 10" by simp
    from False 1 have "digits_value (decimal (n div 10)) 0 = Some (n div 10)" by simp
    with False show ?thesis
      by (subst decimal.simps) (simp add: digits_value_append digit_char [OF d])
  qed
qed

lemma decimal_digits: "c \<in> set (decimal n) \<Longrightarrow> is_digit c"
proof (induction n rule: decimal.induct)
  case (1 n)
  show ?case
  proof (cases "n < 10")
    case True
    with 1(2) show ?thesis
      by (subst (asm) decimal.simps) (simp add: digit_char)
  next
    case False
    have d: "n mod 10 < 10" by simp
    from False 1 show ?thesis
      by (subst (asm) decimal.simps) (auto simp: digit_char [OF d])
  qed
qed

lemma decimal_nonempty: "decimal n \<noteq> []"
  by (subst decimal.simps) simp

lemma decimal_head: "decimal n = c # cs \<Longrightarrow> c \<noteq> CHR ''-'' \<and> c \<noteq> CHR ''+''"
proof -
  assume a: "decimal n = c # cs"
  then have "is_digit c" using decimal_digits [of c n] by simp
  then show ?thesis by (auto simp: is_digit_def)
qed

lemma Atoi_decimal_text:
  "Atoi (decimal_text n) = (if - (2 ^ 63) \<le> n \<and> n \<le> 2 ^ 63 - 1 then Some n else None)"
proof (cases "n < 0")
  case True
  then show ?thesis
    by (auto simp: Atoi_def decimal_text_def decimal_nonempty digits_value_decimal)
next
  case False
  obtain c cs where s: "decimal (nat n) = c # cs"
    using decimal_nonempty [of "nat n"] by (cases "decimal (nat n)") auto
  from decimal_head [OF s] have h: "c \<noteq> CHR ''-''" "c \<noteq> CHR ''+''" by simp_all
  have "digits_value (c # cs) 0 = Some (nat n)"
    using digits_value_decimal [of "nat n"] s by simp
  with False s h show ?thesis
    by (auto simp: Atoi_def decimal_text_def simp del: digits_value.simps)
qed

text \<open>
  Claim C9, refuted at 200 and at 0. A requested limit of 200 gives 50 where the clamp
  into \<open>[1, 100]\<close> gives 100, and a requested limit of 0 gives 50 where the clamp gives 1.
\<close>

theorem history_limit_not_clamped:
  "decimal_text 200 = ''200'' \<and> history_limit (Some ''200'') = 50 \<and> spec_clamp_limit 200 = 100 \<and>
   decimal_text 0 = ''0'' \<and> history_limit (Some ''0'') = 50 \<and> spec_clamp_limit 0 = 1"
proof -
  have "decimal 200 = ''200''" "decimal 0 = ''0''"
    by code_simp+
  then show ?thesis
    by (simp add: history_limit_def DefaultQuery_def Atoi_def is_digit_def spec_clamp_limit_def
        decimal_text_def)
qed


text \<open>
  Claim C9, amended. The effective limit is the requested one when it lies in
  \<open>[1, 100]\<close> and the default 50 otherwise, also when the parameter is absent; the
  effective offset is the requested one when it is at least 0 and fits the 64-bit \<open>int\<close>,
  and 0 otherwise, also when the parameter is absent.
\<close>

theorem history_paging:
  "history_limit None = 50 \<and>
   history_limit (Some (decimal_text n)) = (if 1 \<le> n \<and> n \<le> 100 then n else 50) \<and>
   history_offset None = 0 \<and>
   history_offset (Some (decimal_text n)) = (if 0 \<le> n \<and> n \<le> 2 ^ 63 - 1 then n else 0)"
proof -
  have "Atoi ''50'' = Some 50" "Atoi ''0'' = Some 0"
    by (simp_all add: Atoi_def is_digit_def)
  then show ?thesis
    by (auto simp: history_limit_def history_offset_def DefaultQuery_def Atoi_decimal_text)
qed

text \<open>Whatever the request, the limit ends up in \<open>[1, 100]\<close> and the offset at 0 or above.\<close>

lemma history_limit_range: "1 \<le> history_limit q \<and> history_limit q \<le> 100"
  by (auto simp: history_limit_def split: option.splits)

lemma history_offset_range: "0 \<le> history_offset q"
  by (auto simp: history_offset_def split: option.splits)

lemma history_limit_unparsed: "Atoi s = None \<Longrightarrow> history_limit (Some s) = 50"
  by (simp add: history_limit_def DefaultQuery_def)

section \<open>Counters\<close>


lemma sint_pred:
  fixes a :: int64
  assumes "- (2 ^ 63) < sint a"
  shows "sint (a - 1) = sint a - 1"
proof -
  have "sint a < 2 ^ 63" using sint_lt [of a] by simp
  with assms show ?thesis
    by (simp add: sint_word_ariths signed_take_bit_int_eq_self)
qed


lemma average_loop_returns_zero:
  assumes "average_loop d tc = Some r" and "successfulTransactions tc = 0"
  shows "averageProcessingTime tc = 0"
proof -
  have "successfulTransactions tc = 0 \<longrightarrow> averageProcessingTime tc = 0"
  proof (rule average_loop.raw_induct
      [where P = "\<lambda>d tc r. successfulTransactions tc = 0 \<longrightarrow> averageProcessingTime tc = 0",
        OF _ assms(1)], goal_cases)
    case (1 f d tc r)
    then show ?case
      by (auto simp: Let_def split: if_splits)
  qed
  with assms(2) show ?thesis by simp
qed

lemma average_loop_stuck:
  assumes "successfulTransactions tc = 0" and "averageProcessingTime tc \<noteq> 0"
  shows "average_loop d tc = None"
proof (cases "average_loop d tc")
  case None
  then show ?thesis .
next
  case (Some r)
  from average_loop_returns_zero [OF Some assms(1)] assms(2) show ?thesis by simp
qed

text \<open>
  When \<open>RecordTransaction\<close> gets a transaction it returns, unless the successful count is
  zero while the average is not: then the loop on the average never ends.
\<close>

lemma average_loop_returns:
  assumes "successfulTransactions tc = 0 \<longrightarrow> averageProcessingTime tc = 0"
    and "successfulTransactions tc \<noteq> - 1"
  shows "\<exists>a. average_loop d tc = Some (Returns (tc\<lparr>averageProcessingTime := a\<rparr>))"
proof -
  from assms(2) have "successfulTransactions tc + 1 \<noteq> 0"
    by (metis add.commute add_eq_0_iff)
  with assms(1) show ?thesis
    by (subst average_loop.simps) (auto simp: Let_def)
qed

lemma RecordTransaction_returns:
  assumes "successfulTransactions tc = 0 \<longrightarrow> averageProcessingTime tc = 0"
    and "successfulTransactions tc \<noteq> - 1"
  shows "\<exists>tc'. RecordTransaction (Some t) ok d err tc = Some (Returns tc')"
proof -
  let ?tc3 = "AddAmountProcessed (Amount t)
                (IncrementTransactionType (Type t) (IncrementTotalTransactions tc))"
  have "successfulTransactions ?tc3 = successfulTransactions tc"
    "averageProcessingTime ?tc3 = averageProcessingTime tc"
    by (simp_all add: AddAmountProcessed_def IncrementTransactionType_def
        IncrementTotalTransactions_def Let_def)
  with assms average_loop_returns [of ?tc3 d] obtain a where
    "average_loop d ?tc3 = Some (Returns (?tc3\<lparr>averageProcessingTime := a\<rparr>))"
    by auto
  then show ?thesis
    by (cases err) (simp_all add: RecordTransaction_def RecordProcessingTime_def Let_def)
qed

lemma RecordTransaction_never_returns:
  assumes "successfulTransactions tc = 0" and "averageProcessingTime tc \<noteq> 0"
  shows "RecordTransaction (Some t) ok d err tc = None"
proof -
  let ?tc3 = "AddAmountProcessed (Amount t)
                (IncrementTransactionType (Type t) (IncrementTotalTransactions tc))"
  have "successfulTransactions ?tc3 = 0" "averageProcessingTime ?tc3 \<noteq> 0"
    using assms
    by (simp_all add: AddAmountProcessed_def IncrementTransactionType_def
        IncrementTotalTransactions_def Let_def)
  then have "average_loop d ?tc3 = None" by (rule average_loop_stuck)
  then show ?thesis
    by (simp add: RecordTransaction_def RecordProcessingTime_def Let_def)
qed




























end
